theory Spec2Isabelle
  imports Main
begin

section \<open>The title control of an editor group without tabs\<close>

text \<open>
  A shallow embedding of \<^verbatim>\<open>src/vs/workbench/browser/parts/editor/noTabsTitleControl.ts\<close>.
  Every method of \<^verbatim>\<open>NoTabsTitleControl\<close> becomes a function from the controller (the fields
  and collaborators the method reads through \<^verbatim>\<open>this\<close>) and the event to either the
  exception the method throws or the list of calls it makes on its collaborators, in
  the order of the source. A value that JavaScript allows to be \<^verbatim>\<open>null\<close> or
  \<^verbatim>\<open>undefined\<close> is an \<open>option\<close>, with \<open>None\<close> for both.
\<close>

subsection \<open>Data\<close>

type_synonym HTMLElement = nat
type_synonym URI = string

datatype Verbosity = SHORT | MEDIUM | LONG

text \<open>The two colour identifiers the control imports from the workbench theme.\<close>

datatype ColorIdentifier = TAB_ACTIVE_FOREGROUND | TAB_UNFOCUSED_ACTIVE_FOREGROUND

text \<open>The editor input: only the queries the control makes.\<close>

record IEditorInput =
  isDirty :: bool
  getName :: "string option"
  getDescription :: "Verbosity \<Rightarrow> string option"
  getTitle :: "Verbosity \<Rightarrow> string option"

record IEditorGroup =
  groupId :: nat
  activeEditor :: "IEditorInput option"
  isPinned :: "IEditorInput \<Rightarrow> bool"

record IEditorStacksModel =
  groups :: "IEditorGroup list"
  isActive :: "IEditorGroup \<Rightarrow> bool"

record ITabOptions =
  labelFormat :: string

text \<open>The deferred that \<^verbatim>\<open>closeEditorAction.run\<close> returns, by its outcome.\<close>

datatype TPromise = Completed | Errored string

text \<open>
  The controller. \<open>ctx\<close> is the field \<^verbatim>\<open>this.context\<close>. The other fields are what the
  methods read from the base class and the injected services, none of which is part of
  the file: \<open>toolbarElement\<close> is
  \<^verbatim>\<open>this.editorActionsToolbar.getContainer().getHTMLElement()\<close>, \<open>isAncestor\<close> is
  \<^verbatim>\<open>DOM.isAncestor\<close> (its first argument may be undefined), \<open>getTabOptions\<close> is
  \<^verbatim>\<open>this.editorGroupService.getTabOptions()\<close>, \<open>closeEditorAction_run\<close> the outcome of the
  deferred of \<^verbatim>\<open>this.closeEditorAction.run\<close>, \<open>editorActions\<close> the actions the base class
  computes for the toolbar from the context.
\<close>

record NoTabsTitleControl =
  ctx :: "IEditorGroup option"
  dragged :: bool
  titleContainer :: HTMLElement
  stacks :: IEditorStacksModel
  getTabOptions :: ITabOptions
  toolbarElement :: HTMLElement
  isAncestor :: "HTMLElement option \<Rightarrow> HTMLElement \<Rightarrow> bool"
  getColor :: "ColorIdentifier \<Rightarrow> string"
  toResource :: "IEditorInput \<Rightarrow> URI option"
  closeEditorAction_run :: "IEditorGroup \<Rightarrow> IEditorInput option \<Rightarrow> TPromise"
  editorActions :: "string list"

text \<open>
  The two kinds of event that reach \<^verbatim>\<open>onTitleClick\<close>: \<^verbatim>\<open>e instanceof MouseEvent\<close> holds of
  the first only. A gesture event carries \<^verbatim>\<open>initialTarget\<close>; on a mouse event that
  property is undefined.
\<close>

datatype event =
    MouseEvent int "HTMLElement option" "HTMLElement option"
  | GestureEvent "HTMLElement option" "HTMLElement option" "HTMLElement option"

fun instanceofMouseEvent :: "event \<Rightarrow> bool" where
  "instanceofMouseEvent (MouseEvent b t s) = True"
| "instanceofMouseEvent (GestureEvent i t s) = False"

fun button :: "event \<Rightarrow> int option" where
  "button (MouseEvent b t s) = Some b"
| "button (GestureEvent i t s) = None"

fun initialTarget :: "event \<Rightarrow> HTMLElement option" where
  "initialTarget (MouseEvent b t s) = None"
| "initialTarget (GestureEvent i t s) = i"

fun target :: "event \<Rightarrow> HTMLElement option" where
  "target (MouseEvent b t s) = t"
| "target (GestureEvent i t s) = t"

fun srcElement :: "event \<Rightarrow> HTMLElement option" where
  "srcElement (MouseEvent b t s) = s"
| "srcElement (GestureEvent i t s) = s"

text \<open>JavaScript's \<^verbatim>\<open>a || b\<close> on values that are an object or null/undefined.\<close>

fun orElse :: "'a option \<Rightarrow> 'a option \<Rightarrow> 'a option" where
  "orElse (Some a) b = Some a"
| "orElse None b = b"

text \<open>\<^verbatim>\<open>s || ''\<close> on a string or null/undefined: the empty string is falsy too.\<close>

fun orEmpty :: "string option \<Rightarrow> string" where
  "orEmpty (Some s) = (if s = [] then [] else s)"
| "orEmpty None = []"

record IResourceLabel =
  name :: string
  description :: string
  resource :: "URI option"

record IResourceLabelOptions =
  title :: "string option"
  italic :: bool
  extraClasses :: "string list"

datatype exn = TypeError

text \<open>The calls a method makes on its collaborators.\<close>

datatype effect =
    EventHelper_stop "bool option"
  | SetTimeout_quickOpenService_show
  | PinEditor IEditorGroup "IEditorInput option"
  | FocusGroup IEditorGroup
  | CloseEditorAction_run IEditorGroup "IEditorInput option"
  | OnUnexpectedError string
  | OnContextMenu "IEditorGroup option" "IEditorInput option" HTMLElement
  | EditorLabel_clear
  | ClearEditorActionsToolbar
  | DOM_addClass HTMLElement string
  | DOM_removeClass HTMLElement string
  | EditorLabel_setLabel IResourceLabel IResourceLabelOptions
  | EditorLabel_style_color string
  | UpdateEditorActionsToolbar

subsection \<open>Methods\<close>

fun getVerbosity :: "string \<Rightarrow> Verbosity" where
  "getVerbosity style =
     (if style = ''short'' then SHORT
      else if style = ''long'' then LONG
      else MEDIUM)"

text \<open>
  \<^verbatim>\<open>onTitleLabelClick\<close>: stops the event and, unless a drag is going on, schedules the
  quick open with \<^verbatim>\<open>setTimeout\<close>.
\<close>

definition onTitleLabelClick :: "NoTabsTitleControl \<Rightarrow> event \<Rightarrow> exn + effect list" where
  "onTitleLabelClick this e =
     Inr (EventHelper_stop (Some False) #
          (if \<not> dragged this then [SetTimeout_quickOpenService_show] else []))"

definition onTitleDoubleClick :: "NoTabsTitleControl \<Rightarrow> event \<Rightarrow> exn + effect list" where
  "onTitleDoubleClick this e =
     (case ctx this of
        None \<Rightarrow> Inr [EventHelper_stop None]
      | Some grp \<Rightarrow> Inr [EventHelper_stop None, PinEditor grp (activeEditor grp)])"

text \<open>
  Modelled from the spec: \<^verbatim>\<open>.done(null, errors.onUnexpectedError)\<close> of the promise library,
  which is not part of the file. A failure the deferred reports is handed to the error
  callback; nothing is thrown to the caller.
\<close>

fun promise_done :: "TPromise \<Rightarrow> (string \<Rightarrow> effect) \<Rightarrow> effect list" where
  "promise_done Completed onError = []"
| "promise_done (Errored err) onError = [onError err]"

text \<open>
  \<^verbatim>\<open>(e as GestureEvent).initialTarget || e.target || e.srcElement\<close>
\<close>

definition originalTarget :: "event \<Rightarrow> HTMLElement option" where
  "originalTarget e = orElse (orElse (initialTarget e) (target e)) (srcElement e)"

definition onTitleClick :: "NoTabsTitleControl \<Rightarrow> event \<Rightarrow> exn + effect list" where
  "onTitleClick this e =
     (case ctx this of
        None \<Rightarrow> Inr []
      | Some grp \<Rightarrow>
          if instanceofMouseEvent e \<and> button e = Some 1 then
            Inr (CloseEditorAction_run grp (activeEditor grp) #
                 promise_done (closeEditorAction_run this grp (activeEditor grp)) OnUnexpectedError)
          else if (length (groups (stacks this)) = 1 \<or> \<not> instanceofMouseEvent e)
                  \<and> \<not> isAncestor this (originalTarget e) (toolbarElement this) then
            Inr [FocusGroup grp]
          else Inr [])"

text \<open>
  The listeners that \<^verbatim>\<open>create\<close> registers for \<^verbatim>\<open>CONTEXT_MENU\<close> and for the touch
  \<^verbatim>\<open>Contextmenu\<close>: both evaluate
  \<^verbatim>\<open>{ group: this.context, editor: this.context.activeEditor }\<close> before they call
  \<^verbatim>\<open>onContextMenu\<close> of the base class. Reading a property of null or undefined throws.
\<close>

definition contextMenuListener :: "NoTabsTitleControl \<Rightarrow> event \<Rightarrow> exn + effect list" where
  "contextMenuListener this e =
     (case ctx this of
        None \<Rightarrow> Inl TypeError
      | Some grp \<Rightarrow> Inr [OnContextMenu (ctx this) (activeEditor grp) (titleContainer this)])"

text \<open>
  \<^verbatim>\<open>doRefresh\<close>. \<^verbatim>\<open>editor = group && group.activeEditor\<close> is falsy when the context is unset
  and when the group has no active editor; an editor object is never falsy. Past the
  early return \<^verbatim>\<open>group.activeEditor\<close> is that editor.
\<close>

definition doRefresh :: "NoTabsTitleControl \<Rightarrow> exn + effect list" where
  "doRefresh this =
     (case ctx this of
        None \<Rightarrow> Inr [EditorLabel_clear, ClearEditorActionsToolbar]
      | Some grp \<Rightarrow>
          (case activeEditor grp of
             None \<Rightarrow> Inr [EditorLabel_clear, ClearEditorActionsToolbar]
           | Some editor \<Rightarrow>
               let isPinned = isPinned grp editor;
                   isActive = isActive (stacks this) grp;
                   resource = toResource this editor;
                   name = orEmpty (getName editor);
                   labelFormat = labelFormat (getTabOptions this);
                   description =
                     (if labelFormat = ''default'' \<and> \<not> isActive then []
                      else orEmpty (getDescription editor (getVerbosity labelFormat)));
                   title = getTitle editor LONG;
                   title = (if Some description = title then Some [] else title)
               in Inr
                 [ if isActive then DOM_addClass (titleContainer this) ''active''
                   else DOM_removeClass (titleContainer this) ''active'',
                   if isDirty editor then DOM_addClass (titleContainer this) ''dirty''
                   else DOM_removeClass (titleContainer this) ''dirty'',
                   EditorLabel_setLabel
                     \<lparr>name = name, description = description, resource = resource\<rparr>
                     \<lparr>title = title, italic = \<not> isPinned, extraClasses = [''title-label'']\<rparr>,
                   EditorLabel_style_color
                     (if isActive then getColor this TAB_ACTIVE_FOREGROUND
                      else getColor this TAB_UNFOCUSED_ACTIVE_FOREGROUND),
                   UpdateEditorActionsToolbar ]))"

subsection \<open>Reading a trace\<close>

text \<open>
  The requests a handler makes of the workbench: focus the group, pin or close the
  active editor, open the quick open, open the context menu.
\<close>

fun isRequest :: "effect \<Rightarrow> bool" where
  "isRequest (PinEditor g ed) = True"
| "isRequest (FocusGroup g) = True"
| "isRequest (CloseEditorAction_run g ed) = True"
| "isRequest SetTimeout_quickOpenService_show = True"
| "isRequest (OnContextMenu g ed a) = True"
| "isRequest x = False"

definition requests :: "effect list \<Rightarrow> effect list" where
  "requests es = filter isRequest es"

text \<open>The arguments of the calls of \<^verbatim>\<open>editorLabel.setLabel\<close> in a trace.\<close>

fun setLabelCalls :: "effect list \<Rightarrow> (IResourceLabel \<times> IResourceLabelOptions) list" where
  "setLabelCalls [] = []"
| "setLabelCalls (EditorLabel_setLabel l opts # es) = (l, opts) # setLabelCalls es"
| "setLabelCalls (x # es) = setLabelCalls es"

subsection \<open>The presentation\<close>

text \<open>
  Modelled from the spec: what the widgets show, which the file only writes through calls
  on the DOM, the label widget and the base class. The presentation state is the class
  list of each element, the label's content with its options (none when cleared), the
  colour of the label's element and the actions of the toolbar.
\<close>

record presentation =
  classList :: "HTMLElement \<Rightarrow> string set"
  labelContent :: "(IResourceLabel \<times> IResourceLabelOptions) option"
  labelColor :: "string option"
  toolbarActions :: "string list"

text \<open>
  Modelled from the spec: the effect of each call on the presentation. Adding a class
  that is present and removing one that is absent change nothing; the label widget's
  \<^verbatim>\<open>setLabel\<close> and \<^verbatim>\<open>clear\<close> replace its content; the toolbar shows no action once
  cleared, and the actions of the context once updated. The requests to the workbench
  leave the presentation as it is.
\<close>

fun apply_effect :: "NoTabsTitleControl \<Rightarrow> presentation \<Rightarrow> effect \<Rightarrow> presentation" where
  "apply_effect this s (DOM_addClass el c) =
     s\<lparr>classList := (classList s)(el := insert c (classList s el))\<rparr>"
| "apply_effect this s (DOM_removeClass el c) =
     s\<lparr>classList := (classList s)(el := classList s el - {c})\<rparr>"
| "apply_effect this s EditorLabel_clear = s\<lparr>labelContent := None\<rparr>"
| "apply_effect this s (EditorLabel_setLabel l opts) = s\<lparr>labelContent := Some (l, opts)\<rparr>"
| "apply_effect this s (EditorLabel_style_color c) = s\<lparr>labelColor := Some c\<rparr>"
| "apply_effect this s ClearEditorActionsToolbar = s\<lparr>toolbarActions := []\<rparr>"
| "apply_effect this s UpdateEditorActionsToolbar = s\<lparr>toolbarActions := editorActions this\<rparr>"
| "apply_effect this s x = s"

text \<open>\<^verbatim>\<open>refresh\<close>: the presentation after \<^verbatim>\<open>doRefresh\<close>, or the exception it throws.\<close>

definition refresh :: "NoTabsTitleControl \<Rightarrow> presentation \<Rightarrow> exn + presentation" where
  "refresh this s =
     (case doRefresh this of
        Inl x \<Rightarrow> Inl x
      | Inr es \<Rightarrow> Inr (foldl (apply_effect this) s es))"

subsection \<open>Example values\<close>

definition editor1 :: IEditorInput where
  "editor1 =
     \<lparr>isDirty = True, getName = Some ''a.ts'',
      getDescription = (\<lambda>v. case v of SHORT \<Rightarrow> Some ''src'' | MEDIUM \<Rightarrow> Some ''ws/src''
                                   | LONG \<Rightarrow> Some ''/ws/src/a.ts''),
      getTitle = (\<lambda>v. Some ''/ws/src/a.ts'')\<rparr>"

text \<open>An editor whose name, description and title are null.\<close>

definition editor2 :: IEditorInput where
  "editor2 =
     \<lparr>isDirty = False, getName = None, getDescription = (\<lambda>v. None), getTitle = (\<lambda>v. None)\<rparr>"

definition group1 :: IEditorGroup where
  "group1 = \<lparr>groupId = 1, activeEditor = Some editor1, isPinned = (\<lambda>ed. False)\<rparr>"

definition group2 :: IEditorGroup where
  "group2 = \<lparr>groupId = 2, activeEditor = Some editor2, isPinned = (\<lambda>ed. True)\<rparr>"

definition group3 :: IEditorGroup where
  "group3 = \<lparr>groupId = 3, activeEditor = None, isPinned = (\<lambda>ed. False)\<rparr>"

text \<open>
  A workbench with one group, active, and the label format \<^verbatim>\<open>long\<close>. Element 1 is the
  title container, element 2 the toolbar inside it, element 3 a button of the toolbar.
  The close action fails.
\<close>

definition control1 :: NoTabsTitleControl where
  "control1 =
     \<lparr>ctx = Some group1, dragged = False, titleContainer = 1,
      stacks = \<lparr>groups = [group1], isActive = (\<lambda>g. groupId g = 1)\<rparr>,
      getTabOptions = \<lparr>labelFormat = ''long''\<rparr>,
      toolbarElement = 2,
      isAncestor = (\<lambda>child ancestor. child = Some ancestor \<or> (child = Some 3 \<and> ancestor \<in> {1, 2})
                                       \<or> (child = Some 2 \<and> ancestor = 1)),
      getColor = (\<lambda>c. case c of TAB_ACTIVE_FOREGROUND \<Rightarrow> ''#ffffff''
                               | TAB_UNFOCUSED_ACTIVE_FOREGROUND \<Rightarrow> ''#808080''),
      toResource = (\<lambda>ed. Some ''file:///ws/src/a.ts''),
      closeEditorAction_run = (\<lambda>g ed. Errored ''disk full''),
      editorActions = [''workbench.action.closeActiveEditor'']\<rparr>"

definition group4 :: IEditorGroup where
  "group4 = \<lparr>groupId = 4, activeEditor = Some editor1, isPinned = (\<lambda>ed. True)\<rparr>"

text \<open>A workbench with two groups of which the first is active, bound to the second.\<close>

definition control2 :: NoTabsTitleControl where
  "control2 =
     control1\<lparr>ctx := Some group2,
              stacks := \<lparr>groups = [group1, group2], isActive = (\<lambda>g. groupId g = 1)\<rparr>\<rparr>"

text \<open>
  The same workbench with the label format \<^verbatim>\<open>default\<close>, bound to a group that is not
  active and whose editor has a description.
\<close>

definition control3 :: NoTabsTitleControl where
  "control3 =
     control1\<lparr>ctx := Some group4,
              stacks := \<lparr>groups = [group1, group4], isActive = (\<lambda>g. groupId g = 1)\<rparr>,
              getTabOptions := \<lparr>labelFormat = ''default''\<rparr>\<rparr>"

definition presentation0 :: presentation where
  "presentation0 =
     \<lparr>classList = (\<lambda>el. {}), labelContent = None, labelColor = None, toolbarActions = []\<rparr>"

subsection \<open>The description rule in the words of the specification\<close>

text \<open>
  The specification's rule for the description of a label \<open>l\<close> pushed for the editor of
  a group: empty when the label format is \<^verbatim>\<open>default\<close> and the group is not active,
  otherwise what \<^verbatim>\<open>getDescription\<close> returns at the verbosity of the label format.
\<close>

definition description_as_specified ::
  "NoTabsTitleControl \<Rightarrow> IEditorGroup \<Rightarrow> IEditorInput \<Rightarrow> IResourceLabel \<Rightarrow> bool" where
  "description_as_specified this grp editor l =
     (if labelFormat (getTabOptions this) = ''default'' \<and> \<not> isActive (stacks this) grp
      then description l = []
      else Some (description l) = getDescription editor (getVerbosity (labelFormat (getTabOptions this))))"

subsection \<open>A label without null fields\<close>

text \<open>
  The label widget receives no null or undefined field: of what \<^verbatim>\<open>setLabel\<close> is given, the
  name and the description are strings, and the resource and the title, which may be
  null or undefined, are not.
\<close>

definition no_null_field :: "IResourceLabel \<Rightarrow> IResourceLabelOptions \<Rightarrow> bool" where
  "no_null_field l opts = (resource l \<noteq> None \<and> title opts \<noteq> None)"

section \<open>Properties\<close>

subsection \<open>Helper facts about the examples\<close>

lemma ctx_control1: "ctx control1 = Some group1"
  by (simp add: control1_def)

lemma ctx_control2: "ctx control2 = Some group2"
  by (simp add: control2_def)

lemma ctx_control3: "ctx control3 = Some group4"
  by (simp add: control3_def)

lemma activeEditor_group1: "activeEditor group1 = Some editor1"
  by (simp add: group1_def)

lemma activeEditor_group2: "activeEditor group2 = Some editor2"
  by (simp add: group2_def)

lemma activeEditor_group4: "activeEditor group4 = Some editor1"
  by (simp add: group4_def)

subsection \<open>The verbosity of a label format\<close>

text \<open>
  C6: \<^verbatim>\<open>getVerbosity\<close> maps \<^verbatim>\<open>short\<close> to \<open>SHORT\<close>, \<^verbatim>\<open>long\<close> to \<open>LONG\<close> and every other
  string to \<open>MEDIUM\<close>. It is a total function: no string is rejected.
\<close>

theorem getVerbosity_cases:
  "getVerbosity ''short'' = SHORT \<and> getVerbosity ''long'' = LONG \<and>
   (\<forall>style. style \<noteq> ''short'' \<and> style \<noteq> ''long'' \<longrightarrow> getVerbosity style = MEDIUM)"
  by simp

text \<open>
  The label formats \<^verbatim>\<open>default\<close>, \<^verbatim>\<open>Short\<close> (the comparison is case sensitive) and the
  empty string all give \<open>MEDIUM\<close>.
\<close>

theorem getVerbosity_cases_witness:
  "''default'' \<noteq> ''short'' \<and> ''default'' \<noteq> ''long'' \<and> getVerbosity ''default'' = MEDIUM \<and>
   getVerbosity ''Short'' = MEDIUM \<and> getVerbosity [] = MEDIUM"
proof -
  note other = getVerbosity_cases [THEN conjunct2, THEN conjunct2, THEN spec, THEN mp]
  have a: "''default'' \<noteq> ''short'' \<and> ''default'' \<noteq> ''long''" by simp
  have b: "''Short'' \<noteq> ''short'' \<and> ''Short'' \<noteq> ''long''" by simp
  have c: "[] \<noteq> ''short'' \<and> [] \<noteq> ''long''" by simp
  show ?thesis
    using a other [OF a] other [OF b] other [OF c] by (intro conjI) (erule conjunct1 conjunct2 | assumption)+
qed

subsection \<open>Clicks on the title\<close>

text \<open>
  C1: when the context is bound and the event is not a click of the middle mouse button,
  \<^verbatim>\<open>onTitleClick\<close> returns, and it asks to focus a group exactly when that group is the
  bound one, the workbench has one group or the event is not a mouse event, and the
  event's original target is not below the root element of the toolbar.
\<close>

theorem onTitleClick_focus_iff:
  assumes "ctx this = Some grp"
    and "\<not> (instanceofMouseEvent e \<and> button e = Some 1)"
  shows "\<exists>es. onTitleClick this e = Inr es \<and>
           (\<forall>g. FocusGroup g \<in> set es \<longleftrightarrow>
                g = grp \<and>
                (length (groups (stacks this)) = 1 \<or> \<not> instanceofMouseEvent e) \<and>
                \<not> isAncestor this (originalTarget e) (toolbarElement this))"
  using assms by (auto simp: onTitleClick_def)

text \<open>
  With one group, a mouse click on the title container focuses the group and a click on
  a button of the toolbar does not. With two groups, a mouse click on the title
  container does not focus the group and a tap does.
\<close>

theorem onTitleClick_focus_iff_witness:
  "(\<exists>es. onTitleClick control1 (MouseEvent 0 (Some 1) None) = Inr es \<and> FocusGroup group1 \<in> set es) \<and>
   (\<exists>es. onTitleClick control1 (MouseEvent 0 (Some 3) None) = Inr es \<and> FocusGroup group1 \<notin> set es) \<and>
   (\<exists>es. onTitleClick control2 (MouseEvent 0 (Some 1) None) = Inr es \<and> FocusGroup group2 \<notin> set es) \<and>
   (\<exists>es. onTitleClick control2 (GestureEvent (Some 1) None None) = Inr es \<and> FocusGroup group2 \<in> set es)"
proof -
  have m: "\<And>t. \<not> (instanceofMouseEvent (MouseEvent 0 t None) \<and> button (MouseEvent 0 t None) = Some 1)"
    by simp
  have g: "\<not> (instanceofMouseEvent (GestureEvent (Some 1) None None)
              \<and> button (GestureEvent (Some 1) None None) = Some 1)"
    by simp
  have n1: "length (groups (stacks control1)) = 1"
    by (simp add: control1_def)
  have n2: "length (groups (stacks control2)) \<noteq> 1"
    by (simp add: control2_def)
  have t1: "\<not> isAncestor control1 (originalTarget (MouseEvent 0 (Some 1) None)) (toolbarElement control1)"
    by (simp add: control1_def originalTarget_def)
  have t3: "isAncestor control1 (originalTarget (MouseEvent 0 (Some 3) None)) (toolbarElement control1)"
    by (simp add: control1_def originalTarget_def)
  have t2: "\<not> isAncestor control2 (originalTarget (GestureEvent (Some 1) None None)) (toolbarElement control2)"
    by (simp add: control2_def control1_def originalTarget_def)
  have im: "\<And>t. instanceofMouseEvent (MouseEvent 0 t None)"
    by simp
  have ig: "\<not> instanceofMouseEvent (GestureEvent (Some 1) None None)"
    by simp
  have a: "\<exists>es. onTitleClick control1 (MouseEvent 0 (Some 1) None) = Inr es \<and> FocusGroup group1 \<in> set es"
    using onTitleClick_focus_iff [OF ctx_control1 m, of "Some 1"] n1 t1 by blast
  have b: "\<exists>es. onTitleClick control1 (MouseEvent 0 (Some 3) None) = Inr es \<and> FocusGroup group1 \<notin> set es"
    using onTitleClick_focus_iff [OF ctx_control1 m, of "Some 3"] t3 by blast
  have c: "\<exists>es. onTitleClick control2 (MouseEvent 0 (Some 1) None) = Inr es \<and> FocusGroup group2 \<notin> set es"
    using onTitleClick_focus_iff [OF ctx_control2 m, of "Some 1"] n2 im by blast
  have d: "\<exists>es. onTitleClick control2 (GestureEvent (Some 1) None None) = Inr es \<and> FocusGroup group2 \<in> set es"
    using onTitleClick_focus_iff [OF ctx_control2 g] ig t2 by blast
  from a b c d show ?thesis by blast
qed

subsection \<open>The context menu with no context\<close>

text \<open>
  C2: with no context bound, no handler should throw. The two context menu listeners
  read \<^verbatim>\<open>this.context.activeEditor\<close> without a guard: on a controller with no context
  a context menu event throws a \<^verbatim>\<open>TypeError\<close>.
\<close>

theorem contextMenuListener_unset_context:
  "contextMenuListener (control1\<lparr>ctx := None\<rparr>) (MouseEvent 2 (Some 1) None) = Inl TypeError"
  by (simp add: contextMenuListener_def)

text \<open>
  The other handlers and the refresh check the context first; with no context they
  return, and the context menu listeners are the only ones that throw.
\<close>

lemma guarded_handlers_unset_context:
  assumes "ctx this = None"
  shows "onTitleClick this e = Inr []"
    and "onTitleDoubleClick this e = Inr [EventHelper_stop None]"
    and "doRefresh this = Inr [EditorLabel_clear, ClearEditorActionsToolbar]"
    and "contextMenuListener this e = Inl TypeError"
  using assms by (simp_all add: onTitleClick_def onTitleDoubleClick_def doRefresh_def contextMenuListener_def)

subsection \<open>Refreshing the title\<close>

text \<open>
  C3: when the context is unset or its group has no active editor, \<^verbatim>\<open>doRefresh\<close> clears
  the label, clears the toolbar of the editor actions and makes no other call.
\<close>

theorem doRefresh_clears:
  assumes "ctx this = None \<or> (\<exists>grp. ctx this = Some grp \<and> activeEditor grp = None)"
  shows "doRefresh this = Inr [EditorLabel_clear, ClearEditorActionsToolbar]"
  using assms by (auto simp: doRefresh_def)

text \<open>Both cases: no context, and a group with no active editor.\<close>

theorem doRefresh_clears_witness:
  "doRefresh (control1\<lparr>ctx := None\<rparr>) = Inr [EditorLabel_clear, ClearEditorActionsToolbar] \<and>
   activeEditor group3 = None \<and>
   doRefresh (control1\<lparr>ctx := Some group3\<rparr>) = Inr [EditorLabel_clear, ClearEditorActionsToolbar]"
proof -
  have a: "ctx (control1\<lparr>ctx := None\<rparr>) = None" by simp
  have b: "activeEditor group3 = None" by (simp add: group3_def)
  have c: "\<exists>grp. ctx (control1\<lparr>ctx := Some group3\<rparr>) = Some grp \<and> activeEditor grp = None"
    using b by simp
  note r1 = doRefresh_clears [OF disjI1, OF a]
  note r2 = doRefresh_clears [OF disjI2, OF c]
  from r1 b r2 show ?thesis by (intro conjI)
qed

text \<open>
  C4 (as amended): with an active editor, \<^verbatim>\<open>doRefresh\<close> sets the label once. Its
  description is empty when the label format is \<^verbatim>\<open>default\<close> and the group is not the
  active one; otherwise it is what \<^verbatim>\<open>getDescription\<close> returns at the verbosity of the
  label format, with the empty string in place of null or undefined.
\<close>

theorem doRefresh_description:
  assumes "ctx this = Some grp" and "activeEditor grp = Some editor"
  shows "\<exists>es l opts. doRefresh this = Inr es \<and> setLabelCalls es = [(l, opts)] \<and>
           description l =
             (if labelFormat (getTabOptions this) = ''default'' \<and> \<not> isActive (stacks this) grp then []
              else case getDescription editor (getVerbosity (labelFormat (getTabOptions this))) of
                     None \<Rightarrow> [] | Some d \<Rightarrow> d)"
  using assms by (auto simp: doRefresh_def Let_def split: option.splits)

text \<open>
  The format \<^verbatim>\<open>default\<close> on a group that is not active hides a description that is not
  empty; the format \<^verbatim>\<open>long\<close> shows the long description, and the empty string for
  an editor without one.
\<close>

theorem doRefresh_description_witness:
  "(\<exists>es l opts. doRefresh control3 = Inr es \<and> setLabelCalls es = [(l, opts)] \<and> description l = []) \<and>
   getDescription editor1 (getVerbosity (labelFormat (getTabOptions control3))) = Some ''ws/src'' \<and>
   (\<exists>es l opts. doRefresh control1 = Inr es \<and> setLabelCalls es = [(l, opts)] \<and>
      description l = ''/ws/src/a.ts'') \<and>
   (\<exists>es l opts. doRefresh control2 = Inr es \<and> setLabelCalls es = [(l, opts)] \<and> description l = [])"
proof -
  have f3: "labelFormat (getTabOptions control3) = ''default''"
    by (simp add: control3_def)
  have n3: "\<not> isActive (stacks control3) group4"
    by (simp add: control3_def group4_def)
  have f1: "labelFormat (getTabOptions control1) = ''long''"
    by (simp add: control1_def)
  have f2: "labelFormat (getTabOptions control2) = ''long''"
    by (simp add: control2_def control1_def)
  have d1: "getDescription editor1 LONG = Some ''/ws/src/a.ts''"
    by (simp add: editor1_def)
  have d2: "getDescription editor2 LONG = None"
    by (simp add: editor2_def)
  have a: "\<exists>es l opts. doRefresh control3 = Inr es \<and> setLabelCalls es = [(l, opts)] \<and> description l = []"
    using doRefresh_description [OF ctx_control3 activeEditor_group4] f3 n3 by simp
  have b: "getDescription editor1 (getVerbosity (labelFormat (getTabOptions control3))) = Some ''ws/src''"
    by (simp add: f3 editor1_def)
  have c: "\<exists>es l opts. doRefresh control1 = Inr es \<and> setLabelCalls es = [(l, opts)] \<and>
      description l = ''/ws/src/a.ts''"
    using doRefresh_description [OF ctx_control1 activeEditor_group1] f1 d1 by simp
  have d: "\<exists>es l opts. doRefresh control2 = Inr es \<and> setLabelCalls es = [(l, opts)] \<and> description l = []"
    using doRefresh_description [OF ctx_control2 activeEditor_group2] f2 d2 by simp
  from a b c d show ?thesis by blast
qed

text \<open>
  C4 as stated fails where \<^verbatim>\<open>getDescription\<close> returns null: with the label format
  \<^verbatim>\<open>long\<close> the description that reaches the label is the empty string, not the null
  that \<^verbatim>\<open>getDescription\<close> returned.
\<close>

theorem doRefresh_description_counterexample:
  "doRefresh control2 =
     Inr [DOM_removeClass 1 ''active'', DOM_removeClass 1 ''dirty'',
          EditorLabel_setLabel
            \<lparr>name = [], description = [], resource = Some ''file:///ws/src/a.ts''\<rparr>
            \<lparr>title = None, italic = False, extraClasses = [''title-label'']\<rparr>,
          EditorLabel_style_color ''#808080'', UpdateEditorActionsToolbar] \<and>
   \<not> description_as_specified control2 group2 editor2
       \<lparr>name = [], description = [], resource = Some ''file:///ws/src/a.ts''\<rparr>"
proof (intro conjI)
  show "doRefresh control2 =
     Inr [DOM_removeClass 1 ''active'', DOM_removeClass 1 ''dirty'',
          EditorLabel_setLabel
            \<lparr>name = [], description = [], resource = Some ''file:///ws/src/a.ts''\<rparr>
            \<lparr>title = None, italic = False, extraClasses = [''title-label'']\<rparr>,
          EditorLabel_style_color ''#808080'', UpdateEditorActionsToolbar]"
    by (simp add: doRefresh_def control2_def control1_def group2_def editor2_def)
  show "\<not> description_as_specified control2 group2 editor2
       \<lparr>name = [], description = [], resource = Some ''file:///ws/src/a.ts''\<rparr>"
    by (simp add: description_as_specified_def control2_def control1_def editor2_def)
qed

text \<open>
  C5: with an active editor, the title given to the label is the editor's title at the
  verbosity \<open>LONG\<close>, except that it is the empty string when that title is equal to the
  description given to the label.
\<close>

theorem doRefresh_title:
  assumes "ctx this = Some grp" and "activeEditor grp = Some editor"
  shows "\<exists>es l opts. doRefresh this = Inr es \<and> setLabelCalls es = [(l, opts)] \<and>
           title opts =
             (if getTitle editor LONG = Some (description l) then Some [] else getTitle editor LONG)"
  using assms by (auto simp: doRefresh_def Let_def split: option.splits)

text \<open>
  On the active group with the format \<^verbatim>\<open>long\<close> the title repeats the description and is
  emptied; with the description hidden the title is kept.
\<close>

theorem doRefresh_title_witness:
  "getTitle editor1 LONG = Some ''/ws/src/a.ts'' \<and>
   (\<exists>es l opts. doRefresh control1 = Inr es \<and> setLabelCalls es = [(l, opts)] \<and>
      description l = ''/ws/src/a.ts'' \<and> title opts = Some []) \<and>
   (\<exists>es l opts. doRefresh control3 = Inr es \<and> setLabelCalls es = [(l, opts)] \<and>
      description l = [] \<and> title opts = Some ''/ws/src/a.ts'')"
proof -
  have t: "getTitle editor1 LONG = Some ''/ws/src/a.ts''"
    by (simp add: editor1_def)
  have d1: "doRefresh control1 =
     Inr [DOM_addClass 1 ''active'', DOM_addClass 1 ''dirty'',
          EditorLabel_setLabel
            \<lparr>name = ''a.ts'', description = ''/ws/src/a.ts'', resource = Some ''file:///ws/src/a.ts''\<rparr>
            \<lparr>title = Some [], italic = True, extraClasses = [''title-label'']\<rparr>,
          EditorLabel_style_color ''#ffffff'', UpdateEditorActionsToolbar]"
    by (simp add: doRefresh_def control1_def group1_def editor1_def)
  have d3: "doRefresh control3 =
     Inr [DOM_removeClass 1 ''active'', DOM_addClass 1 ''dirty'',
          EditorLabel_setLabel
            \<lparr>name = ''a.ts'', description = [], resource = Some ''file:///ws/src/a.ts''\<rparr>
            \<lparr>title = Some ''/ws/src/a.ts'', italic = False, extraClasses = [''title-label'']\<rparr>,
          EditorLabel_style_color ''#808080'', UpdateEditorActionsToolbar]"
    by (simp add: doRefresh_def control3_def control1_def group4_def editor1_def)
  have a: "\<exists>es l opts. doRefresh control1 = Inr es \<and> setLabelCalls es = [(l, opts)] \<and>
      description l = ''/ws/src/a.ts'' \<and> title opts = Some []"
    using doRefresh_title [OF ctx_control1 activeEditor_group1] t by (simp add: d1)
  have b: "\<exists>es l opts. doRefresh control3 = Inr es \<and> setLabelCalls es = [(l, opts)] \<and>
      description l = [] \<and> title opts = Some ''/ws/src/a.ts''"
    using doRefresh_title [OF ctx_control3 activeEditor_group4] t by (simp add: d3)
  from t a b show ?thesis by (intro conjI)
qed

text \<open>
  C10 (as amended): with an active editor, the name and the description given to the
  label are strings. A name that \<^verbatim>\<open>getName\<close> returns as null or undefined reaches the label
  as the empty string, and so does a description that \<^verbatim>\<open>getDescription\<close> returns as null
  or undefined, so the label never receives a null or undefined name or description.
  The resource and the title are passed on as computed: the resource is what
  \<^verbatim>\<open>toResource\<close> returns, and the title is null or undefined exactly when \<^verbatim>\<open>getTitle\<close>
  returns that.
\<close>

theorem doRefresh_label_strings:
  assumes "ctx this = Some grp" and "activeEditor grp = Some editor"
  shows "\<exists>es l opts. doRefresh this = Inr es \<and> setLabelCalls es = [(l, opts)] \<and>
           name l = (case getName editor of None \<Rightarrow> [] | Some n \<Rightarrow> n) \<and>
           (getName editor = None \<longrightarrow> name l = []) \<and>
           (getDescription editor (getVerbosity (labelFormat (getTabOptions this))) = None
              \<longrightarrow> description l = []) \<and>
           resource l = toResource this editor \<and>
           (title opts = None \<longleftrightarrow> getTitle editor LONG = None)"
proof -
  have some: "\<And>d. Some d = getTitle editor LONG \<Longrightarrow> getTitle editor LONG \<noteq> None"
    by (drule sym) simp
  show ?thesis
    using assms some by (auto simp: doRefresh_def Let_def split: option.splits)
qed

text \<open>
  An editor whose name, description and title are null gets an empty name, an empty
  description and a null title.
\<close>

theorem doRefresh_label_strings_witness:
  "getName editor2 = None \<and>
   getDescription editor2 (getVerbosity (labelFormat (getTabOptions control2))) = None \<and>
   getTitle editor2 LONG = None \<and>
   (\<exists>es l opts. doRefresh control2 = Inr es \<and> setLabelCalls es = [(l, opts)] \<and>
      name l = [] \<and> description l = [] \<and> title opts = None)"
proof -
  have n: "getName editor2 = None"
    by (simp add: editor2_def)
  have d: "getDescription editor2 (getVerbosity (labelFormat (getTabOptions control2))) = None"
    by (simp add: editor2_def)
  have t: "getTitle editor2 LONG = None"
    by (simp add: editor2_def)
  from doRefresh_label_strings [OF ctx_control2 activeEditor_group2]
  obtain es l opts where r: "doRefresh control2 = Inr es" and c: "setLabelCalls es = [(l, opts)]"
    and nm: "getName editor2 = None \<longrightarrow> name l = []"
    and ds: "getDescription editor2 (getVerbosity (labelFormat (getTabOptions control2))) = None
              \<longrightarrow> description l = []"
    and ti: "title opts = None \<longleftrightarrow> getTitle editor2 LONG = None"
    by (elim exE conjE)
  from nm n have nm': "name l = []" by (rule mp)
  from ds d have ds': "description l = []" by (rule mp)
  from ti t have ti': "title opts = None" by (rule iffD2)
  from r c nm' ds' ti'
  have a: "\<exists>es l opts. doRefresh control2 = Inr es \<and> setLabelCalls es = [(l, opts)] \<and>
      name l = [] \<and> description l = [] \<and> title opts = None"
    by (intro exI conjI)
  from n d t a show ?thesis by (intro conjI)
qed

text \<open>
  C10 as stated fails in its conclusion that the label never receives a null or
  undefined field: for an editor whose \<^verbatim>\<open>getTitle\<close> returns null, the title that
  \<^verbatim>\<open>setLabel\<close> is given is null.
\<close>

theorem doRefresh_label_fields_counterexample:
  "getTitle editor2 LONG = None \<and>
   doRefresh control2 =
     Inr [DOM_removeClass 1 ''active'', DOM_removeClass 1 ''dirty'',
          EditorLabel_setLabel
            \<lparr>name = [], description = [], resource = Some ''file:///ws/src/a.ts''\<rparr>
            \<lparr>title = None, italic = False, extraClasses = [''title-label'']\<rparr>,
          EditorLabel_style_color ''#808080'', UpdateEditorActionsToolbar] \<and>
   \<not> no_null_field
       \<lparr>name = [], description = [], resource = Some ''file:///ws/src/a.ts''\<rparr>
       \<lparr>title = None, italic = False, extraClasses = [''title-label'']\<rparr>"
proof (intro conjI)
  show "getTitle editor2 LONG = None"
    by (simp add: editor2_def)
  show "doRefresh control2 =
     Inr [DOM_removeClass 1 ''active'', DOM_removeClass 1 ''dirty'',
          EditorLabel_setLabel
            \<lparr>name = [], description = [], resource = Some ''file:///ws/src/a.ts''\<rparr>
            \<lparr>title = None, italic = False, extraClasses = [''title-label'']\<rparr>,
          EditorLabel_style_color ''#808080'', UpdateEditorActionsToolbar]"
    by (simp add: doRefresh_def control2_def control1_def group2_def editor2_def)
  show "\<not> no_null_field
       \<lparr>name = [], description = [], resource = Some ''file:///ws/src/a.ts''\<rparr>
       \<lparr>title = None, italic = False, extraClasses = [''title-label'']\<rparr>"
    by (simp add: no_null_field_def)
qed

subsection \<open>Double click and middle click\<close>

text \<open>
  C7: on a double click, with a context bound the only request of the handler is one
  request to pin the active editor of the bound group in that group; with no context the
  handler makes no request.
\<close>

theorem onTitleDoubleClick_pin:
  "(\<forall>grp. ctx this = Some grp \<longrightarrow>
      (\<exists>es. onTitleDoubleClick this e = Inr es \<and> requests es = [PinEditor grp (activeEditor grp)])) \<and>
   (ctx this = None \<longrightarrow> (\<exists>es. onTitleDoubleClick this e = Inr es \<and> requests es = []))"
  by (auto simp: onTitleDoubleClick_def requests_def)

text \<open>A double click with a group bound, and one with no context.\<close>

theorem onTitleDoubleClick_pin_witness:
  "(\<exists>es. onTitleDoubleClick control1 (MouseEvent 0 (Some 1) None) = Inr es \<and>
      requests es = [PinEditor group1 (Some editor1)]) \<and>
   (\<exists>es. onTitleDoubleClick (control1\<lparr>ctx := None\<rparr>) (MouseEvent 0 (Some 1) None) = Inr es \<and>
      requests es = [])"
proof -
  note bound = onTitleDoubleClick_pin [THEN conjunct1, THEN spec, THEN mp]
  note unset = onTitleDoubleClick_pin [THEN conjunct2, THEN mp]
  have u: "ctx (control1\<lparr>ctx := None\<rparr>) = None" by simp
  have a: "\<exists>es. onTitleDoubleClick control1 (MouseEvent 0 (Some 1) None) = Inr es \<and>
      requests es = [PinEditor group1 (Some editor1)]"
    using bound [OF ctx_control1] by (simp add: activeEditor_group1)
  have b: "\<exists>es. onTitleDoubleClick (control1\<lparr>ctx := None\<rparr>) (MouseEvent 0 (Some 1) None) = Inr es \<and>
      requests es = []"
    using unset [OF u] .
  from a b show ?thesis by (intro conjI)
qed

text \<open>
  C8: on a click of the middle mouse button with a context bound, \<^verbatim>\<open>onTitleClick\<close> returns
  without throwing; its only request is one request to close the active editor of the
  bound group, it asks for no focus, and when the deferred of the close action fails the
  error is handed to \<^verbatim>\<open>errors.onUnexpectedError\<close>.
\<close>

theorem onTitleClick_middle:
  assumes "ctx this = Some grp"
  shows "\<exists>es. onTitleClick this (MouseEvent 1 t s) = Inr es \<and>
           requests es = [CloseEditorAction_run grp (activeEditor grp)] \<and>
           (\<forall>g. FocusGroup g \<notin> set es) \<and>
           (\<forall>err. closeEditorAction_run this grp (activeEditor grp) = Errored err
                  \<longrightarrow> OnUnexpectedError err \<in> set es)"
  using assms
  by (cases "closeEditorAction_run this grp (activeEditor grp)") (auto simp: onTitleClick_def requests_def)

text \<open>A middle click on a controller whose close action fails.\<close>

theorem onTitleClick_middle_witness:
  "closeEditorAction_run control1 group1 (activeEditor group1) = Errored ''disk full'' \<and>
   (\<exists>es. onTitleClick control1 (MouseEvent 1 (Some 1) None) = Inr es \<and>
      requests es = [CloseEditorAction_run group1 (Some editor1)] \<and>
      FocusGroup group1 \<notin> set es \<and> OnUnexpectedError ''disk full'' \<in> set es)"
proof -
  have f: "closeEditorAction_run control1 group1 (activeEditor group1) = Errored ''disk full''"
    by (simp add: control1_def)
  from onTitleClick_middle [OF ctx_control1, of "Some 1" None]
  obtain es where r: "onTitleClick control1 (MouseEvent 1 (Some 1) None) = Inr es"
    and q: "requests es = [CloseEditorAction_run group1 (activeEditor group1)]"
    and nf: "\<forall>g. FocusGroup g \<notin> set es"
    and rep: "\<forall>err. closeEditorAction_run control1 group1 (activeEditor group1) = Errored err
                  \<longrightarrow> OnUnexpectedError err \<in> set es"
    by blast
  from q have q': "requests es = [CloseEditorAction_run group1 (Some editor1)]"
    by (simp add: activeEditor_group1)
  from nf have nf': "FocusGroup group1 \<notin> set es" by (rule spec)
  from rep f have rep': "OnUnexpectedError ''disk full'' \<in> set es" by blast
  from r q' nf' rep' have "\<exists>es. onTitleClick control1 (MouseEvent 1 (Some 1) None) = Inr es \<and>
      requests es = [CloseEditorAction_run group1 (Some editor1)] \<and>
      FocusGroup group1 \<notin> set es \<and> OnUnexpectedError ''disk full'' \<in> set es"
    by (intro exI conjI)
  with f show ?thesis by (intro conjI)
qed

subsection \<open>Refreshing twice\<close>

lemma class_set_facts:
  fixes A :: "string set"
  shows "insert ''dirty'' (insert ''active'' (insert ''dirty'' (insert ''active'' A))) =
           insert ''dirty'' (insert ''active'' A)"
    and "insert ''active'' (insert ''active'' A - {''dirty''}) - {''dirty''} =
           insert ''active'' A - {''dirty''}"
    and "insert ''dirty'' (insert ''dirty'' (A - {''active''}) - {''active''}) =
           insert ''dirty'' (A - {''active''})"
    and "A - {''active''} - {''dirty''} - {''active''} - {''dirty''} = A - {''active''} - {''dirty''}"
  by auto

text \<open>
  C9: \<^verbatim>\<open>refresh\<close> is idempotent. For a fixed controller, the refresh of any presentation
  returns a presentation that a second refresh leaves as it is: class lists, label
  content with its title, colour and toolbar actions.
\<close>

theorem refresh_idempotent:
  "\<exists>s1. refresh this s = Inr s1 \<and> refresh this s1 = Inr s1"
  by (auto simp: refresh_def doRefresh_def Let_def class_set_facts split: option.splits)

text \<open>
  From the empty presentation, the refresh of the active group with a dirty editor gives
  both classes, the active colour and the toolbar's actions, and is a fixed point.
\<close>

theorem refresh_idempotent_witness:
  "\<exists>s1. refresh control1 presentation0 = Inr s1 \<and> refresh control1 s1 = Inr s1 \<and>
     classList s1 1 = {''active'', ''dirty''} \<and> labelColor s1 = Some ''#ffffff'' \<and>
     toolbarActions s1 = [''workbench.action.closeActiveEditor'']"
proof -
  from refresh_idempotent [of control1 presentation0]
  obtain s1 where a: "refresh control1 presentation0 = Inr s1" and b: "refresh control1 s1 = Inr s1"
    by blast
  have d1: "doRefresh control1 =
     Inr [DOM_addClass 1 ''active'', DOM_addClass 1 ''dirty'',
          EditorLabel_setLabel
            \<lparr>name = ''a.ts'', description = ''/ws/src/a.ts'', resource = Some ''file:///ws/src/a.ts''\<rparr>
            \<lparr>title = Some [], italic = True, extraClasses = [''title-label'']\<rparr>,
          EditorLabel_style_color ''#ffffff'', UpdateEditorActionsToolbar]"
    by (simp add: doRefresh_def control1_def group1_def editor1_def)
  have e: "editorActions control1 = [''workbench.action.closeActiveEditor'']"
    by (simp add: control1_def)
  from a have c: "classList s1 1 = {''active'', ''dirty''} \<and> labelColor s1 = Some ''#ffffff'' \<and>
     toolbarActions s1 = [''workbench.action.closeActiveEditor'']"
    by (auto simp: refresh_def d1 e presentation0_def)
  from a b c show ?thesis by blast
qed

end
